theory Spec2Isabelle
  imports Main "HOL-Library.Sublist" "HOL-Library.Multiset"
begin

unbundle bit_operations_syntax

section \<open>Strings\<close>

text \<open>
  A JavaScript string is a sequence of UTF-16 code units; \<open>length\<close>, \<open>slice\<close>,
  \<open>substring\<close> and the regular expressions of \<^verbatim>\<open>scripts/fetch-jobs.mjs\<close> (none has the
  \<^verbatim>\<open>u\<close> flag) all count code units. A code unit is a natural number here, and \<open>S\<close> turns
  an ASCII literal into its code units.
\<close>

type_synonym jsstring = "nat list"

definition S :: "string \<Rightarrow> jsstring" where
  "S s = map of_char s"

text \<open>
  The file \<^verbatim>\<open>scripts/fetch-jobs.mjs\<close> holds three revisions of the script, one after the
  other. The first (with \<^verbatim>\<open>extractCompany\<close>, \<^verbatim>\<open>generateTags\<close> and
  \<^verbatim>\<open>sortAndLimit\<close>) keeps the source's names here; the functions of the second, which
  has the same names, carry the suffix \<open>_v2\<close>; the third has names of its own
  (\<^verbatim>\<open>parseGenericRSS\<close>, \<^verbatim>\<open>fetchText\<close>, \<^verbatim>\<open>toTs\<close>).
\<close>

section \<open>Transport: \<^verbatim>\<open>fetchText\<close> (manual redirects, one retry on 403)\<close>

text \<open>
  What \<^verbatim>\<open>fetch(url, {redirect: 'manual', ...})\<close> resolves to: \<^verbatim>\<open>res.status\<close>,
  \<^verbatim>\<open>res.headers.get('location')\<close> (\<open>None\<close> for \<^verbatim>\<open>null\<close>) and \<^verbatim>\<open>res.text()\<close>.
  The test \<^verbatim>\<open>if (!loc)\<close> of \<^verbatim>\<open>fetchText\<close> holds for \<^verbatim>\<open>null\<close> and for the empty string.
\<close>

record response =
  status :: nat
  location_header :: "jsstring option"
  body :: jsstring

text \<open>
  The effects of the transport, in the order they happen: a request issued for a URL, and
  the \<^verbatim>\<open>setTimeout\<close> delay in milliseconds.
\<close>

datatype event = Request jsstring | Sleep nat

text \<open>
  The host: the network answers a request knowing everything that happened before it
  (\<open>None\<close> when \<^verbatim>\<open>fetch\<close> rejects, which also covers \<^verbatim>\<open>new URL(url).origin\<close> throwing
  while the headers are built), and \<open>resolve loc url\<close> is
  \<^verbatim>\<open>new URL(loc, url).toString()\<close> (\<open>None\<close> when the constructor throws).
\<close>

record host_net =
  fetch :: "event list \<Rightarrow> jsstring \<Rightarrow> response option"
  resolve :: "jsstring \<Rightarrow> jsstring \<Rightarrow> jsstring option"

text \<open>The exceptions \<^verbatim>\<open>fetchText\<close> ends with, one constructor for each \<^verbatim>\<open>throw\<close>.\<close>

datatype fetch_error =
    NoLocation jsstring         \<comment> \<open>\<^verbatim>\<open>Redirect with no Location header for ${url}\<close>\<close>
  | TooManyRedirects jsstring   \<comment> \<open>\<^verbatim>\<open>Too many redirects for ${url}\<close>\<close>
  | FetchFailed jsstring nat    \<comment> \<open>\<^verbatim>\<open>Fetch failed ${url}: ${res.status}\<close>\<close>
  | InvalidURL                  \<comment> \<open>the \<^verbatim>\<open>TypeError\<close> of \<^verbatim>\<open>new URL(loc, url)\<close>\<close>
  | NetworkError                \<comment> \<open>\<^verbatim>\<open>fetch\<close> rejected\<close>

definition redirect_status :: "nat \<Rightarrow> bool" where
  "redirect_status st = (st = 301 \<or> st = 302 \<or> st = 307 \<or> st = 308)"

definition ok :: "response \<Rightarrow> bool" where
  "ok res = (200 \<le> status res \<and> status res \<le> 299)"

function fetchText ::
  "host_net \<Rightarrow> jsstring \<Rightarrow> nat \<Rightarrow> event list \<Rightarrow> (fetch_error + jsstring) \<times> event list"
where
  "fetchText h url depth log =
     (let log1 = log @ [Request url] in
      case fetch h log url of
        None \<Rightarrow> (Inl NetworkError, log1)
      | Some res \<Rightarrow>
          if redirect_status (status res) then
            (case location_header res of
               None \<Rightarrow> (Inl (NoLocation url), log1)
             | Some loc \<Rightarrow>
                 if loc = [] then (Inl (NoLocation url), log1)
                 else
                   (case resolve h loc url of
                      None \<Rightarrow> (Inl InvalidURL, log1)
                    | Some next \<Rightarrow>
                        if depth > 5 then (Inl (TooManyRedirects url), log1)
                        else fetchText h next (depth + 1) log1))
          else if status res = 403 \<and> depth = 0 then
            fetchText h url (depth + 1) (log1 @ [Sleep 500])
          else if \<not> ok res then (Inl (FetchFailed url (status res)), log1)
          else (Inr (body res), log1))"
  by pat_completeness auto
termination
  by (relation "measure (\<lambda>(h, url, depth, log). 6 - depth)") auto

declare fetchText.simps [simp del]

fun requests :: "event list \<Rightarrow> nat" where
  "requests [] = 0"
| "requests (Request u # es) = Suc (requests es)"
| "requests (Sleep n # es) = requests es"


definition forbidding :: "nat \<Rightarrow> nat \<Rightarrow> host_net" where
  "forbidding n st =
     \<lparr> fetch = (\<lambda>log url.
          if requests log < n
          then Some \<lparr> status = 403, location_header = None, body = [] \<rparr>
          else if requests log = n \<and> redirect_status st
          then Some \<lparr> status = st, location_header = Some (S ''/next''), body = [] \<rparr>
          else if requests log = n
          then Some \<lparr> status = st, location_header = None, body = [] \<rparr>
          else Some \<lparr> status = 200, location_header = None, body = S ''ok'' \<rparr>),
       resolve = (\<lambda>loc url. Some (S ''http://a.example'' @ loc)) \<rparr>"




fun sleeps :: "event list \<Rightarrow> nat" where
  "sleeps [] = 0"
| "sleeps (Request u # es) = sleeps es"
| "sleeps (Sleep n # es) = Suc (sleeps es)"

section \<open>Text, feeds and records\<close>

subsection \<open>Character classes\<close>

text \<open>
  \<^verbatim>\<open>\s\<close> and \<^verbatim>\<open>trim()\<close> take the same characters: white space and line terminators.
  The dot of a regular expression takes everything but a line terminator. Under the
  \<^verbatim>\<open>i\<close> flag (without \<^verbatim>\<open>u\<close>) two code units match when their canonical forms do,
  and a code unit outside ASCII never has an ASCII letter as its canonical form: \<open>canon\<close>
  decides the comparison with every ASCII character of a pattern.
\<close>

definition isSpace :: "nat \<Rightarrow> bool" where
  "isSpace c = (c = 9 \<or> c = 10 \<or> c = 11 \<or> c = 12 \<or> c = 13 \<or> c = 32 \<or> c = 160 \<or>
     c = 5760 \<or> (8192 \<le> c \<and> c \<le> 8202) \<or> c = 8232 \<or> c = 8233 \<or> c = 8239 \<or>
     c = 8287 \<or> c = 12288 \<or> c = 65279)"

definition isLineTerminator :: "nat \<Rightarrow> bool" where
  "isLineTerminator c = (c = 10 \<or> c = 13 \<or> c = 8232 \<or> c = 8233)"

definition isLetter :: "nat \<Rightarrow> bool" where
  "isLetter c = ((65 \<le> c \<and> c \<le> 90) \<or> (97 \<le> c \<and> c \<le> 122))"

definition isWordChar :: "nat \<Rightarrow> bool" where
  "isWordChar c = (isLetter c \<or> (48 \<le> c \<and> c \<le> 57) \<or> c = 95)"

definition canon :: "nat \<Rightarrow> nat" where
  "canon c = (if 97 \<le> c \<and> c \<le> 122 then c - 32 else c)"

text \<open>
  \<^verbatim>\<open>String.prototype.toLowerCase\<close> and \<^verbatim>\<open>Date\<close> belong to the engine that runs the
  script, not to the script. They are parameters here, and what is proved of the script
  holds for every engine.

  \<open>toLowerCase h s\<close> is \<^verbatim>\<open>s.toLowerCase()\<close>: the case mapping of Unicode, which also maps
  letters outside ASCII and may change the length of a string.

  \<open>Date_parse h s\<close> is the time value of \<^verbatim>\<open>new Date(s)\<close> and of \<^verbatim>\<open>Date.parse(s)\<close> in
  milliseconds, \<open>None\<close> for an invalid date (\<^verbatim>\<open>NaN\<close>); what it accepts besides the ISO
  format is up to the engine. \<open>toISOString\<close> writes a time value in the ISO format. The
  readings of the clock (\<^verbatim>\<open>new Date()\<close>, \<^verbatim>\<open>Date.now()\<close>) are arguments of the functions
  that take them.
\<close>

record engine =
  toLowerCase :: "jsstring \<Rightarrow> jsstring"
  Date_parse :: "jsstring \<Rightarrow> int option"
  toISOString :: "int \<Rightarrow> jsstring"

definition trim :: "jsstring \<Rightarrow> jsstring" where
  "trim s = rev (dropWhile isSpace (rev (dropWhile isSpace s)))"

text \<open>\<^verbatim>\<open>text.includes(k)\<close> (\<open>includes\<close> is a keyword of the theory language).\<close>

fun str_includes :: "jsstring \<Rightarrow> jsstring \<Rightarrow> bool" where
  "str_includes [] k = (k = [])"
| "str_includes (c # cs) k = (prefix k (c # cs) \<or> str_includes cs k)"

fun join :: "jsstring list \<Rightarrow> jsstring \<Rightarrow> jsstring" where
  "join [] sep = []"
| "join [x] sep = x"
| "join (x # y # ys) sep = x @ sep @ join (y # ys) sep"

text \<open>Prefix up to case, for the literal parts of a pattern with the \<^verbatim>\<open>i\<close> flag.\<close>

fun iprefix :: "jsstring \<Rightarrow> jsstring \<Rightarrow> bool" where
  "iprefix [] s = True"
| "iprefix (p # ps) [] = False"
| "iprefix (p # ps) (c # cs) = (canon p = canon c \<and> iprefix ps cs)"

text \<open>
  The first position of a string, from the left, where a match succeeds: how
  \<^verbatim>\<open>match\<close>, \<^verbatim>\<open>exec\<close> and \<^verbatim>\<open>replace\<close> look for a pattern.
\<close>

fun search :: "(jsstring \<Rightarrow> 'a option) \<Rightarrow> jsstring \<Rightarrow> 'a option" where
  "search f [] = f []"
| "search f (c # cs) = (case f (c # cs) of Some r \<Rightarrow> Some r | None \<Rightarrow> search f cs)"

subsection \<open>The sanitizer: \<^verbatim>\<open>strip\<close>\<close>

text \<open>
  \<^verbatim>\<open>.replace(/p/g, r)\<close> for a pattern \<open>p\<close> that is a literal, non-empty string, and a
  replacement without \<^verbatim>\<open>$\<close>: every occurrence, from the left, without overlaps.
\<close>

fun replaceAll :: "jsstring \<Rightarrow> jsstring \<Rightarrow> jsstring \<Rightarrow> jsstring" where
  "replaceAll p r [] = []"
| "replaceAll p r (c # cs) =
     (if p \<noteq> [] \<and> prefix p (c # cs) then r @ replaceAll p r (drop (length p - 1) cs)
      else c # replaceAll p r cs)"

text \<open>\<^verbatim>\<open>.replace(/<!\[CDATA\[|\]\]>/g, '')\<close>\<close>

fun removeCDATA :: "jsstring \<Rightarrow> jsstring" where
  "removeCDATA [] = []"
| "removeCDATA (c # cs) =
     (if prefix (S ''<![CDATA['') (c # cs) then removeCDATA (drop 8 cs)
      else if prefix (S '']]>'') (c # cs) then removeCDATA (drop 2 cs)
      else c # removeCDATA cs)"

text \<open>
  \<^verbatim>\<open>.replace(/<[^>]+>/g, ' ')\<close>: at a \<^verbatim>\<open><\<close>, the greedy \<^verbatim>\<open>[^>]+\<close> takes every
  character up to the next \<^verbatim>\<open>>\<close>; the pattern matches when it took at least one and a
  \<^verbatim>\<open>>\<close> follows (giving characters back cannot help: the character given back is no
  \<^verbatim>\<open>>\<close>).
\<close>

function stripMarkup :: "jsstring \<Rightarrow> jsstring" where
  "stripMarkup [] = []"
| "stripMarkup (c # cs) =
     (if c = 60 \<and> takeWhile (\<lambda>x. x \<noteq> 62) cs \<noteq> [] \<and> dropWhile (\<lambda>x. x \<noteq> 62) cs \<noteq> []
      then 32 # stripMarkup (tl (dropWhile (\<lambda>x. x \<noteq> 62) cs))
      else c # stripMarkup cs)"
  by pat_completeness auto
termination
  by (relation "measure length")
    (auto simp: less_Suc_eq_le intro: order_trans [OF diff_le_self length_dropWhile_le])

text \<open>\<^verbatim>\<open>.replace(/\s+/g, ' ')\<close>\<close>

function collapseSpace :: "jsstring \<Rightarrow> jsstring" where
  "collapseSpace [] = []"
| "collapseSpace (c # cs) =
     (if isSpace c then 32 # collapseSpace (dropWhile isSpace cs)
      else c # collapseSpace cs)"
  by pat_completeness auto
termination
  by (relation "measure length") (auto intro: le_imp_less_Suc length_dropWhile_le)

text \<open>
  The first revision's \<^verbatim>\<open>strip(html = '')\<close>; \<open>None\<close> is \<^verbatim>\<open>undefined\<close>, which the
  default parameter turns into the empty string.
\<close>

definition strip :: "jsstring option \<Rightarrow> jsstring" where
  "strip html =
     trim
      (replaceAll (S ''&#39;'') (S [CHR 0x27])
      (replaceAll (S ''&quot;'') (S [CHR 0x22])
      (replaceAll (S ''&gt;'') (S ''>'')
      (replaceAll (S ''&lt;'') (S ''<'')
      (replaceAll (S ''&amp;'') (S ''&'')
      (collapseSpace
      (stripMarkup
      (removeCDATA (case html of None \<Rightarrow> [] | Some s \<Rightarrow> s)))))))))"

text \<open>
  The second revision's \<^verbatim>\<open>strip\<close>, with four more entities; 8212 and 8211 are the em
  dash and the en dash, and \<^verbatim>\<open>&hellip;\<close> becomes three full stops.
\<close>

definition strip_v2 :: "jsstring option \<Rightarrow> jsstring" where
  "strip_v2 html =
     trim
      (replaceAll (S ''&hellip;'') (S ''...'')
      (replaceAll (S ''&ndash;'') [8211]
      (replaceAll (S ''&mdash;'') [8212]
      (replaceAll (S ''&nbsp;'') (S '' '')
      (replaceAll (S ''&#39;'') (S [CHR 0x27])
      (replaceAll (S ''&quot;'') (S [CHR 0x22])
      (replaceAll (S ''&gt;'') (S ''>'')
      (replaceAll (S ''&lt;'') (S ''<'')
      (replaceAll (S ''&amp;'') (S ''&'')
      (collapseSpace
      (stripMarkup
      (removeCDATA (case html of None \<Rightarrow> [] | Some s \<Rightarrow> s)))))))))))))"


subsection \<open>Patterns that are only tested\<close>

text \<open>
  The patterns given to \<^verbatim>\<open>.test(text)\<close> are alternatives made of literal characters,
  the dot, \<^verbatim>\<open>.?\<close> and, in the second revision, \<^verbatim>\<open>\b\<close> around the group of
  alternatives. \<open>atoms\<close> reads one alternative as the source writes it.
\<close>

datatype atom = Lit nat | Dot | DotOpt | WordB

fun atoms :: "string \<Rightarrow> atom list" where
  "atoms [] = []"
| "atoms (c # cs) =
     (if c = CHR ''.'' \<and> cs \<noteq> [] \<and> hd cs = CHR ''?'' then DotOpt # atoms (tl cs)
      else if c = CHR ''.'' then Dot # atoms cs
      else Lit (of_char c) # atoms cs)"

text \<open>
  \<open>matches_here ci as prev s\<close>: the atoms match a prefix of \<open>s\<close>, where \<open>prev\<close> is the
  character before \<open>s\<close> (for \<^verbatim>\<open>\b\<close>) and \<open>ci\<close> is the \<^verbatim>\<open>i\<close> flag.
\<close>

definition wordAt :: "nat option \<Rightarrow> bool" where
  "wordAt c = (case c of None \<Rightarrow> False | Some x \<Rightarrow> isWordChar x)"

fun matches_here :: "bool \<Rightarrow> atom list \<Rightarrow> nat option \<Rightarrow> jsstring \<Rightarrow> bool" where
  "matches_here ci [] prev s = True"
| "matches_here ci (Lit a # as) prev [] = False"
| "matches_here ci (Lit a # as) prev (c # cs) =
     ((if ci then canon a = canon c else a = c) \<and> matches_here ci as (Some c) cs)"
| "matches_here ci (Dot # as) prev [] = False"
| "matches_here ci (Dot # as) prev (c # cs) =
     (\<not> isLineTerminator c \<and> matches_here ci as (Some c) cs)"
| "matches_here ci (DotOpt # as) prev [] = matches_here ci as prev []"
| "matches_here ci (DotOpt # as) prev (c # cs) =
     ((\<not> isLineTerminator c \<and> matches_here ci as (Some c) cs) \<or> matches_here ci as prev (c # cs))"
| "matches_here ci (WordB # as) prev s =
     (wordAt prev \<noteq> wordAt (case s of [] \<Rightarrow> None | c # cs \<Rightarrow> Some c) \<and> matches_here ci as prev s)"

fun test_from :: "bool \<Rightarrow> atom list list \<Rightarrow> nat option \<Rightarrow> jsstring \<Rightarrow> bool" where
  "test_from ci alts prev [] = list_ex (\<lambda>a. matches_here ci a prev []) alts"
| "test_from ci alts prev (c # cs) =
     (list_ex (\<lambda>a. matches_here ci a prev (c # cs)) alts \<or> test_from ci alts (Some c) cs)"

text \<open>\<^verbatim>\<open>/a|b|c/i.test(text)\<close> and \<^verbatim>\<open>/\b(a|b|c)\b/.test(text)\<close>\<close>

definition test_i :: "string list \<Rightarrow> jsstring \<Rightarrow> bool" where
  "test_i alts text = test_from True (map atoms alts) None text"

definition test_b :: "string list \<Rightarrow> jsstring \<Rightarrow> bool" where
  "test_b alts text = test_from False (map (\<lambda>a. WordB # atoms a @ [WordB]) alts) None text"

subsection \<open>Field inference (first revision)\<close>

definition BEGINNER_KEYWORDS :: "jsstring list" where
  "BEGINNER_KEYWORDS = map S
     [''entry'', ''junior'', ''beginner'', ''entry-level'', ''trainee'', ''associate'', ''intern'',
      ''no experience'', ''new grad'', ''graduate'', ''starter'', ''assistant'', ''coordinator'']"

definition SENIOR_KEYWORDS :: "jsstring list" where
  "SENIOR_KEYWORDS = map S
     [''senior'', ''lead'', ''principal'', ''director'', ''manager'', ''head of'', ''chief'',
      ''5+ years'', ''3+ years'', ''experienced'', ''expert'', ''architect'']"

text \<open>
  The three title patterns of \<^verbatim>\<open>extractCompany\<close> share their tail
  \<^verbatim>\<open>([A-Z][a-zA-Z\s&.]+?)(?:\s*[-\<dots>]|\s*$)\<close> under the \<^verbatim>\<open>i\<close> flag (the class of the
  tail holds the hyphen, the en dash 8211 and the em dash 8212). The group is a letter and
  then, lazily, one or more characters of the class; after each of them the tail is tried:
  the white space that follows is skipped (greedy \<^verbatim>\<open>\s*\<close>; giving a space back cannot help,
  a space being neither a dash nor the end) and a dash, or the end of the title, must come.
\<close>

definition isDash :: "nat \<Rightarrow> bool" where
  "isDash c = (c = 45 \<or> c = 8211 \<or> c = 8212)"

definition inNameClass :: "nat \<Rightarrow> bool" where
  "inNameClass c = (isLetter c \<or> isSpace c \<or> c = 38 \<or> c = 46)"

definition nameTail :: "jsstring \<Rightarrow> bool" where
  "nameTail r = (case dropWhile isSpace r of [] \<Rightarrow> True | c # cs \<Rightarrow> isDash c)"

fun lazyName :: "jsstring \<Rightarrow> jsstring \<Rightarrow> jsstring option" where
  "lazyName acc [] = (if nameTail [] then Some acc else None)"
| "lazyName acc (c # cs) =
     (if nameTail (c # cs) then Some acc
      else if inNameClass c then lazyName (acc @ [c]) cs
      else None)"

fun nameAt :: "jsstring \<Rightarrow> jsstring option" where
  "nameAt (c # d # r) = (if isLetter c \<and> inNameClass d then lazyName [c, d] r else None)"
| "nameAt r = None"

text \<open>
  \<^verbatim>\<open>/at\s+(\<dots>)/i\<close>, \<^verbatim>\<open>/\|\s*(\<dots>)/i\<close> and \<^verbatim>\<open>/-\s*(\<dots>)/i\<close> tried at the start of
  \<open>s\<close>; the result is the captured group. The greedy \<^verbatim>\<open>\s+\<close> and \<^verbatim>\<open>\s*\<close> take all the
  white space: the group starts with a letter.
\<close>

definition atPattern :: "jsstring \<Rightarrow> jsstring option" where
  "atPattern s =
     (if iprefix (S ''at'') s \<and> drop 2 s \<noteq> [] \<and> isSpace (hd (drop 2 s))
      then nameAt (dropWhile isSpace (drop 2 s))
      else None)"

definition barPattern :: "jsstring \<Rightarrow> jsstring option" where
  "barPattern s =
     (case s of [] \<Rightarrow> None
      | c # cs \<Rightarrow> if c = 124 then nameAt (dropWhile isSpace cs) else None)"

definition hyphenPattern :: "jsstring \<Rightarrow> jsstring option" where
  "hyphenPattern s =
     (case s of [] \<Rightarrow> None
      | c # cs \<Rightarrow> if c = 45 then nameAt (dropWhile isSpace cs) else None)"

text \<open>
  The loop over the patterns: the first pattern that matches with a group shorter than 50
  gives the company; \<open>None\<close> is \<^verbatim>\<open>undefined\<close>. (The group is never empty, so
  \<^verbatim>\<open>match[1]\<close> is truthy whenever there is a match.)
\<close>

fun firstCompany :: "(jsstring \<Rightarrow> jsstring option) list \<Rightarrow> jsstring \<Rightarrow> jsstring option" where
  "firstCompany [] title = None"
| "firstCompany (pattern # patterns) title =
     (case search pattern title of
        None \<Rightarrow> firstCompany patterns title
      | Some g \<Rightarrow> if g \<noteq> [] \<and> length g < 50 then Some (trim g) else firstCompany patterns title)"

definition extractCompany :: "jsstring \<Rightarrow> jsstring \<Rightarrow> jsstring option" where
  "extractCompany title description = firstCompany [atPattern, barPattern, hyphenPattern] title"

definition isBeginnerFriendly :: "engine \<Rightarrow> jsstring \<Rightarrow> jsstring \<Rightarrow> jsstring list \<Rightarrow> bool" where
  "isBeginnerFriendly h title description tags =
     (let text = toLowerCase h (title @ S '' '' @ description @ S '' '' @ join tags (S '' ''));
          hasBeginnerKeywords = list_ex (\<lambda>keyword. str_includes text (toLowerCase h keyword)) BEGINNER_KEYWORDS;
          hasSeniorKeywords = list_ex (\<lambda>keyword. str_includes text (toLowerCase h keyword)) SENIOR_KEYWORDS
      in hasBeginnerKeywords \<or> \<not> hasSeniorKeywords)"

definition categorizeJob :: "engine \<Rightarrow> jsstring \<Rightarrow> jsstring \<Rightarrow> jsstring list \<Rightarrow> jsstring" where
  "categorizeJob h title description tags =
     (let text = toLowerCase h (title @ S '' '' @ description @ S '' '' @ join tags (S '' '')) in
      if test_i [''customer.service'', ''support'', ''help.?desk'', ''customer.success''] text
        then S ''customer-service''
      else if test_i [''marketing'', ''social.media'', ''seo'', ''content.marketing'', ''digital.marketing''] text
        then S ''marketing''
      else if test_i [''sales'', ''account.manager'', ''business.development'', ''sdr'', ''bdr''] text
        then S ''sales''
      else if test_i [''writer'', ''content'', ''copywriter'', ''editor'', ''blog'', ''technical.writer''] text
        then S ''writing''
      else if test_i [''design'', ''ui'', ''ux'', ''graphic'', ''visual'', ''figma'', ''sketch''] text
        then S ''design''
      else if test_i [''developer'', ''programmer'', ''engineer'', ''coding'', ''software'', ''frontend'', ''backend''] text
        then S ''development''
      else if test_i [''data'', ''analyst'', ''analytics'', ''sql'', ''excel'', ''tableau'', ''bi''] text
        then S ''data''
      else if test_i [''virtual.assistant'', ''va'', ''admin'', ''assistant'', ''administrative''] text
        then S ''virtual-assistant''
      else if test_i [''project.manager'', ''coordinator'', ''scrum'', ''agile'', ''project.coordinator''] text
        then S ''project-management''
      else S ''other'')"

text \<open>
  \<^verbatim>\<open>generateTags\<close>: the \<^verbatim>\<open>push\<close> calls in their order, then \<^verbatim>\<open>slice(0, 6)\<close>.
\<close>

definition generateTags :: "engine \<Rightarrow> jsstring \<Rightarrow> jsstring \<Rightarrow> jsstring \<Rightarrow> jsstring list" where
  "generateTags h title description category =
     (let text = toLowerCase h (title @ S '' '' @ description);
          tags = [];
          tags = (if list_ex (\<lambda>keyword. str_includes text (toLowerCase h keyword)) BEGINNER_KEYWORDS
                  then tags @ [S ''entry-level''] else tags);
          tags = (if test_i [''junior'', ''1-2.years''] text then tags @ [S ''junior''] else tags);
          tags = (if test_i [''part.?time'', ''parttime''] text then tags @ [S ''part-time'']
                  else if test_i [''contract'', ''contractor'', ''freelance''] text then tags @ [S ''contract'']
                  else if test_i [''intern'', ''internship''] text then tags @ [S ''internship'']
                  else tags @ [S ''full-time'']);
          tags = (if test_i [''remote'', ''anywhere'', ''global'', ''distributed''] text
                  then tags @ [S ''remote''] else tags);
          tags = (if category \<noteq> S ''other'' then tags @ [category] else tags);
          tags = (if test_i [''no.experience'', ''entry.level'', ''beginner''] text
                  then tags @ [S ''no-experience''] else tags)
      in take 6 tags)"


subsection \<open>Taking the items and their fields out of a feed\<close>

text \<open>
  The lazy \<^verbatim>\<open>[\s\S]*?\<close> followed by a literal closing tag: the text up to the first
  place where the closing tag stands, and what comes after that tag. \<open>ci\<close> is the
  \<^verbatim>\<open>i\<close> flag.
\<close>

definition startsWith :: "bool \<Rightarrow> jsstring \<Rightarrow> jsstring \<Rightarrow> bool" where
  "startsWith ci p s = (if ci then iprefix p s else prefix p s)"

fun lazyUntil :: "bool \<Rightarrow> jsstring \<Rightarrow> jsstring \<Rightarrow> (jsstring \<times> jsstring) option" where
  "lazyUntil ci close [] = (if startsWith ci close [] then Some ([], []) else None)"
| "lazyUntil ci close (c # cs) =
     (if startsWith ci close (c # cs) then Some ([], drop (length close) (c # cs))
      else case lazyUntil ci close cs of
             None \<Rightarrow> None
           | Some (cap, rest) \<Rightarrow> Some (c # cap, rest))"

text \<open>
  \<^verbatim>\<open><item>([\s\S]*?)<\/item>\<close> tried at the start of \<open>s\<close>: the group and the rest of
  the input after the match.
\<close>

definition itemAt :: "bool \<Rightarrow> jsstring \<Rightarrow> (jsstring \<times> jsstring) option" where
  "itemAt ci s =
     (if startsWith ci (S ''<item>'') s then lazyUntil ci (S ''</item>'') (drop 6 s) else None)"

text \<open>
  \<^verbatim>\<open><tag[^>]*>([\s\S]*?)<\/tag>\<close> with the \<^verbatim>\<open>i\<close> flag, tried at the start of \<open>s\<close>. The
  greedy \<^verbatim>\<open>[^>]*\<close> runs to the next \<^verbatim>\<open>>\<close>, which must be there.
\<close>

definition tagAt :: "jsstring \<Rightarrow> jsstring \<Rightarrow> (jsstring \<times> jsstring) option" where
  "tagAt tag s =
     (if iprefix (60 # tag) s then
        (case dropWhile (\<lambda>x. x \<noteq> 62) (drop (Suc (length tag)) s) of
           [] \<Rightarrow> None
         | c # r \<Rightarrow> lazyUntil True (S ''</'' @ tag @ S ''>'') r)
      else None)"


lemma lazyUntil_shorter:
  "lazyUntil ci close s = Some (cap, rest) \<Longrightarrow> length rest \<le> length s"
proof (induction s arbitrary: cap rest)
  case Nil
  then show ?case by (simp split: if_splits)
next
  case (Cons c cs)
  then show ?case
    by (fastforce split: if_splits option.splits prod.splits)
qed

lemma itemAt_shorter: "itemAt ci s = Some (cap, rest) \<Longrightarrow> length rest < length s"
proof -
  assume a: "itemAt ci s = Some (cap, rest)"
  then have p: "startsWith ci (S ''<item>'') s"
    and l: "lazyUntil ci (S ''</item>'') (drop 6 s) = Some (cap, rest)"
    by (simp_all add: itemAt_def split: if_splits)
  from p have "s \<noteq> []"
    by (auto simp: startsWith_def S_def split: if_splits)
  with lazyUntil_shorter [OF l] show ?thesis
    by (cases s) auto
qed

lemma tagAt_shorter: "tagAt tag s = Some (cap, rest) \<Longrightarrow> length rest < length s"
proof -
  assume a: "tagAt tag s = Some (cap, rest)"
  then obtain c r where d: "dropWhile (\<lambda>x. x \<noteq> 62) (drop (Suc (length tag)) s) = c # r"
    and l: "lazyUntil True (S ''</'' @ tag @ S ''>'') r = Some (cap, rest)"
    by (auto simp: tagAt_def split: if_splits list.splits)
  have "length (c # r) \<le> length (drop (Suc (length tag)) s)"
    unfolding d [symmetric] by (rule length_dropWhile_le)
  with lazyUntil_shorter [OF l] show ?thesis by simp
qed

lemma search_shorter:
  assumes "\<And>t r. f t = Some r \<Longrightarrow> length (snd r) < length t"
  shows "search f s = Some r \<Longrightarrow> length (snd r) < length s"
proof (induction s)
  case Nil
  then show ?case using assms [of "[]" r] by simp
next
  case (Cons c cs)
  then show ?case using assms [of "c # cs" r]
    by (auto split: option.splits)
qed

lemma search_itemAt_shorter:
  assumes "search (itemAt ci) s = Some (block, rest)"
  shows "length rest < length s"
proof -
  have "length (snd r) < length t" if "itemAt ci t = Some r" for t r
  proof -
    from that have "itemAt ci t = Some (fst r, snd r)" by simp
    then show ?thesis by (rule itemAt_shorter)
  qed
  from search_shorter [of "itemAt ci", OF this assms] show ?thesis by simp
qed

lemma search_tagAt_shorter:
  assumes "search (tagAt tag) s = Some (cap, rest)"
  shows "length rest < length s"
proof -
  have "length (snd r) < length t" if "tagAt tag t = Some r" for t r
  proof -
    from that have "tagAt tag t = Some (fst r, snd r)" by simp
    then show ?thesis by (rule tagAt_shorter)
  qed
  from search_shorter [of "tagAt tag", OF this assms] show ?thesis by simp
qed

text \<open>
  The \<^verbatim>\<open>while ((m = itemRe.exec(xml)))\<close> loop and \<^verbatim>\<open>xml.matchAll\<close>: the matches from
  left to right, each search starting where the match before it ended. The first two
  revisions keep the group of each match, the third the whole match, and only the third
  is case sensitive.
\<close>

function itemBlocks :: "bool \<Rightarrow> jsstring \<Rightarrow> jsstring list" where
  "itemBlocks ci xml =
     (case search (itemAt ci) xml of
        None \<Rightarrow> []
      | Some (block, rest) \<Rightarrow> block # itemBlocks ci rest)"
  by pat_completeness auto
termination
proof (relation "measure (\<lambda>(ci, xml). length xml)")
  show "wf (measure (\<lambda>(ci, xml). length xml))" by simp
next
  fix ci xml x2 block rest
  assume "search (itemAt ci) xml = Some x2" and "(block, rest) = x2"
  then have "search (itemAt ci) xml = Some (block, rest)" by simp
  then show "((ci, rest), (ci, xml)) \<in> measure (\<lambda>(ci, xml). length xml)"
    by (simp add: search_itemAt_shorter)
qed

declare itemBlocks.simps [simp del]

text \<open>\<^verbatim>\<open>block.matchAll(/<category[^>]*>([\s\S]*?)<\/category>/gi)\<close>, the groups.\<close>

function allTags :: "jsstring \<Rightarrow> jsstring \<Rightarrow> jsstring list" where
  "allTags tag block =
     (case search (tagAt tag) block of
        None \<Rightarrow> []
      | Some (cap, rest) \<Rightarrow> cap # allTags tag rest)"
  by pat_completeness auto
termination
proof (relation "measure (\<lambda>(tag, block). length block)")
  show "wf (measure (\<lambda>(tag, block). length block))" by simp
next
  fix tag block x2 cap rest
  assume "search (tagAt tag) block = Some x2" and "(cap, rest) = x2"
  then have "search (tagAt tag) block = Some (cap, rest)" by simp
  then show "((tag, rest), (tag, block)) \<in> measure (\<lambda>(tag, block). length block)"
    by (simp add: search_tagAt_shorter)
qed

declare allTags.simps [simp del]

text \<open>
  \<^verbatim>\<open>pick(tag)\<close>: the group of the first match in the block, or the empty string (also
  when the group is empty).
\<close>

definition pick :: "jsstring \<Rightarrow> jsstring \<Rightarrow> jsstring" where
  "pick block tag = (case search (tagAt tag) block of None \<Rightarrow> [] | Some (cap, rest) \<Rightarrow> cap)"

text \<open>\<^verbatim>\<open>a || b\<close> on strings: the empty string is the only falsy one.\<close>

definition orElse :: "jsstring \<Rightarrow> jsstring \<Rightarrow> jsstring" where
  "orElse a b = (if a \<noteq> [] then a else b)"

text \<open>
  \<^verbatim>\<open>link.replace(/\?.*$/, '')\<close>: the match starts at the first question mark that has no
  line terminator after it (the dot takes none, and \<^verbatim>\<open>$\<close> is the end of the input) and
  runs to the end.
\<close>

fun removeQuery :: "jsstring \<Rightarrow> jsstring" where
  "removeQuery [] = []"
| "removeQuery (c # cs) =
     (if c = 63 \<and> \<not> list_ex isLineTerminator cs then [] else c # removeQuery cs)"


subsection \<open>Job records and dates\<close>

text \<open>
  The objects the parsers build. The revisions do not give them the same fields: a field
  that a revision does not set is \<open>None\<close>, and so is a \<^verbatim>\<open>company\<close> that is
  \<^verbatim>\<open>undefined\<close>.
\<close>

record job =
  title :: jsstring
  company :: "jsstring option"
  source :: jsstring
  source_url :: jsstring
  posted_at :: jsstring
  tags :: "jsstring list"
  location :: jsstring
  excerpt :: "jsstring option"
  category :: "jsstring option"
  remote_type :: "jsstring option"
  salary :: "jsstring option"

text \<open>\<^verbatim>\<open>parseDate\<close>; \<open>now\<close> is the reading of the clock.\<close>

definition parseDate :: "engine \<Rightarrow> int \<Rightarrow> jsstring \<Rightarrow> jsstring" where
  "parseDate h now s =
     (if s = [] then toISOString h now
      else case Date_parse h s of
             None \<Rightarrow> toISOString h now
           | Some d \<Rightarrow> toISOString h d)"

subsection \<open>The feed parser of the first revision: \<^verbatim>\<open>rssToItems\<close>\<close>

text \<open>
  The body of the loop for one item block; \<open>None\<close> is a \<^verbatim>\<open>continue\<close>. \<open>now\<close> is the
  reading of the clock while the item is parsed.
\<close>

definition rssItem :: "engine \<Rightarrow> int \<Rightarrow> jsstring \<Rightarrow> jsstring \<Rightarrow> job option" where
  "rssItem h now sourceName block =
     (let title = strip (Some (pick block (S ''title'')));
          link = orElse (orElse (strip (Some (pick block (S ''link''))))
                                (strip (Some (pick block (S ''guid''))))) [];
          link = removeQuery link
      in if \<not> prefix (S ''http'') link then None
      else
        let pubDate = parseDate h now
                        (orElse (strip (Some (pick block (S ''pubDate''))))
                                (strip (Some (pick block (S ''date'')))));
            description = strip (Some (orElse (orElse (pick block (S ''description''))
                                                      (pick block (S ''content:encoded'')))
                                              (pick block (S ''summary''))));
            rssCategories = map (\<lambda>m. strip (Some m)) (allTags (S ''category'') block)
        in if title = [] \<or> link = [] then None
        else if \<not> isBeginnerFriendly h title description rssCategories then None
        else
          let company = extractCompany title description;
              category = categorizeJob h title description rssCategories;
              tags = generateTags h title description category
          in Some \<lparr> title = title, company = company, source = sourceName,
                     source_url = link, posted_at = pubDate, tags = tags,
                     location = S ''Remote'', excerpt = Some (take 200 description),
                     category = Some category, remote_type = None, salary = None \<rparr>)"

fun rssLoop :: "engine \<Rightarrow> (nat \<Rightarrow> int) \<Rightarrow> jsstring \<Rightarrow> nat \<Rightarrow> jsstring list \<Rightarrow> job list" where
  "rssLoop h clock sourceName i [] = []"
| "rssLoop h clock sourceName i (block # blocks) =
     (case rssItem h (clock i) sourceName block of
        None \<Rightarrow> rssLoop h clock sourceName (Suc i) blocks
      | Some j \<Rightarrow> j # rssLoop h clock sourceName (Suc i) blocks)"

text \<open>\<open>clock i\<close> is the reading of the clock while item number \<open>i\<close> of the feed is parsed.\<close>

definition rssToItems :: "engine \<Rightarrow> (nat \<Rightarrow> int) \<Rightarrow> jsstring \<Rightarrow> jsstring \<Rightarrow> job list" where
  "rssToItems h clock xml sourceName =
     (if xml = [] then [] else rssLoop h clock sourceName 0 (itemBlocks True xml))"

subsection \<open>The feed parser of the second revision\<close>

text \<open>
  \<^verbatim>\<open>new Date(pubDate).toISOString()\<close> throws a \<^verbatim>\<open>RangeError\<close> for an invalid date, and
  nothing in \<^verbatim>\<open>rssToItems\<close> catches it.
\<close>

datatype js_error = RangeError

definition tags_v2 :: "jsstring \<Rightarrow> jsstring list" where
  "tags_v2 fullText =
     (let tags = [];
          tags = (if test_b [''entry'', ''junior'', ''jr'', ''associate'', ''intern'', ''trainee'',
                             ''graduate'', ''new grad'', ''no experience'', ''beginner''] fullText
                  then tags @ [S ''entry-level''] else tags);
          tags = (if test_b [''junior'', ''jr'', ''1-2 years''] fullText
                  then tags @ [S ''junior''] else tags);
          tags = (if test_b [''senior'', ''sr'', ''lead'', ''principal'', ''staff'', ''experienced'',
                             ''expert''] fullText
                  then tags @ [S ''senior''] else tags);
          tags = (if test_b [''part.time'', ''parttime''] fullText then tags @ [S ''part-time'']
                  else if test_b [''contract'', ''freelance'', ''consultant''] fullText
                    then tags @ [S ''contract'']
                  else if test_b [''intern'', ''internship''] fullText then tags @ [S ''internship'']
                  else tags @ [S ''full-time''])
      in tags @ [S ''remote''])"

definition rssItem_v2 :: "engine \<Rightarrow> int \<Rightarrow> jsstring \<Rightarrow> jsstring \<Rightarrow> js_error + job option" where
  "rssItem_v2 h now sourceName block =
     (let title = strip_v2 (Some (pick block (S ''title'')));
          link = orElse (orElse (strip_v2 (Some (pick block (S ''link''))))
                                (strip_v2 (Some (pick block (S ''guid''))))) [];
          pubDate = orElse (orElse (pick block (S ''pubDate'')) (pick block (S ''date'')))
                           (toISOString h now);
          description = strip_v2 (Some (orElse (pick block (S ''description''))
                                               (pick block (S ''summary''))))
      in if title = [] \<or> link = [] then Inr None
      else
        let fullText = toLowerCase h (title @ S '' '' @ description);
            tags = tags_v2 fullText;
            cleanExcerpt = take 150 (trim (collapseSpace description));
            cleanExcerpt = (if length description > 150 then cleanExcerpt @ S ''...''
                            else cleanExcerpt)
        in case Date_parse h pubDate of
             None \<Rightarrow> Inl RangeError
           | Some d \<Rightarrow>
               Inr (Some \<lparr> title = title, company = None, source = sourceName,
                            source_url = link, posted_at = toISOString h d, tags = tags,
                            location = S ''Remote'', excerpt = Some cleanExcerpt,
                            category = None, remote_type = None, salary = None \<rparr>))"

fun rssLoop_v2 ::
  "engine \<Rightarrow> (nat \<Rightarrow> int) \<Rightarrow> jsstring \<Rightarrow> nat \<Rightarrow> jsstring list \<Rightarrow> js_error + job list"
where
  "rssLoop_v2 h clock sourceName i [] = Inr []"
| "rssLoop_v2 h clock sourceName i (block # blocks) =
     (case rssItem_v2 h (clock i) sourceName block of
        Inl e \<Rightarrow> Inl e
      | Inr None \<Rightarrow> rssLoop_v2 h clock sourceName (Suc i) blocks
      | Inr (Some j) \<Rightarrow>
          (case rssLoop_v2 h clock sourceName (Suc i) blocks of
             Inl e \<Rightarrow> Inl e
           | Inr items \<Rightarrow> Inr (j # items)))"

definition rssToItems_v2 ::
  "engine \<Rightarrow> (nat \<Rightarrow> int) \<Rightarrow> jsstring \<Rightarrow> jsstring \<Rightarrow> js_error + job list"
where
  "rssToItems_v2 h clock xml sourceName =
     (if xml = [] then Inr [] else rssLoop_v2 h clock sourceName 0 (itemBlocks True xml))"

subsection \<open>The feed parser of the third revision: \<^verbatim>\<open>parseGenericRSS\<close>\<close>











subsection \<open>The digest: \<^verbatim>\<open>crypto.createHash('md5').update(s).digest('hex')\<close>\<close>

text \<open>
  \<^verbatim>\<open>update\<close> takes the string in UTF-8 (a surrogate without its partner becomes
  U+FFFD), and the digest is MD5 as RFC 1321 defines it, on 32-bit words written as
  natural numbers with the wrap-around spelled out.
\<close>

fun utf8 :: "jsstring \<Rightarrow> nat list" where
  "utf8 [] = []"
| "utf8 (c # cs) =
     (if c < 0x80 then c # utf8 cs
      else if c < 0x800 then [0xC0 + c div 64, 0x80 + c mod 64] @ utf8 cs
      else if 0xD800 \<le> c \<and> c < 0xDC00 \<and> cs \<noteq> [] \<and> 0xDC00 \<le> hd cs \<and> hd cs < 0xE000 then
        (let cp = 0x10000 + (c - 0xD800) * 1024 + (hd cs - 0xDC00)
         in [0xF0 + cp div 262144, 0x80 + cp div 4096 mod 64, 0x80 + cp div 64 mod 64,
             0x80 + cp mod 64] @ utf8 (tl cs))
      else if 0xD800 \<le> c \<and> c < 0xE000 then [0xEF, 0xBF, 0xBD] @ utf8 cs
      else [0xE0 + c div 4096, 0x80 + c div 64 mod 64, 0x80 + c mod 64] @ utf8 cs)"

definition md5_K :: "nat list" where
  "md5_K =
     [0xd76aa478, 0xe8c7b756, 0x242070db, 0xc1bdceee, 0xf57c0faf, 0x4787c62a,
      0xa8304613, 0xfd469501, 0x698098d8, 0x8b44f7af, 0xffff5bb1, 0x895cd7be,
      0x6b901122, 0xfd987193, 0xa679438e, 0x49b40821, 0xf61e2562, 0xc040b340,
      0x265e5a51, 0xe9b6c7aa, 0xd62f105d, 0x02441453, 0xd8a1e681, 0xe7d3fbc8,
      0x21e1cde6, 0xc33707d6, 0xf4d50d87, 0x455a14ed, 0xa9e3e905, 0xfcefa3f8,
      0x676f02d9, 0x8d2a4c8a, 0xfffa3942, 0x8771f681, 0x6d9d6122, 0xfde5380c,
      0xa4beea44, 0x4bdecfa9, 0xf6bb4b60, 0xbebfbc70, 0x289b7ec6, 0xeaa127fa,
      0xd4ef3085, 0x04881d05, 0xd9d4d039, 0xe6db99e5, 0x1fa27cf8, 0xc4ac5665,
      0xf4292244, 0x432aff97, 0xab9423a7, 0xfc93a039, 0x655b59c3, 0x8f0ccc92,
      0xffeff47d, 0x85845dd1, 0x6fa87e4f, 0xfe2ce6e0, 0xa3014314, 0x4e0811a1,
      0xf7537e82, 0xbd3af235, 0x2ad7d2bb, 0xeb86d391]"

definition md5_s :: "nat list" where
  "md5_s = [7, 12, 17, 22, 7, 12, 17, 22, 7, 12, 17, 22, 7, 12, 17, 22,
            5, 9, 14, 20, 5, 9, 14, 20, 5, 9, 14, 20, 5, 9, 14, 20,
            4, 11, 16, 23, 4, 11, 16, 23, 4, 11, 16, 23, 4, 11, 16, 23,
            6, 10, 15, 21, 6, 10, 15, 21, 6, 10, 15, 21, 6, 10, 15, 21]"

text \<open>The 64 operations of a block, 16 in each of the four rounds.\<close>

definition md5_rounds :: "nat list" where
  "md5_rounds =
     [0, 1, 2, 3, 4, 5, 6, 7, 8, 9, 10, 11, 12, 13, 14, 15] @
     [16, 17, 18, 19, 20, 21, 22, 23, 24, 25, 26, 27, 28, 29, 30, 31] @
     [32, 33, 34, 35, 36, 37, 38, 39, 40, 41, 42, 43, 44, 45, 46, 47] @
     [48, 49, 50, 51, 52, 53, 54, 55, 56, 57, 58, 59, 60, 61, 62, 63]"

definition u32 :: "nat \<Rightarrow> nat" where
  "u32 x = x mod 4294967296"

definition not32 :: "nat \<Rightarrow> nat" where
  "not32 x = 4294967295 - x"

definition rotl32 :: "nat \<Rightarrow> nat \<Rightarrow> nat" where
  "rotl32 x n = u32 (x * 2 ^ n) + x div 2 ^ (32 - n)"

definition le_bytes4 :: "nat \<Rightarrow> nat list" where
  "le_bytes4 v = [v mod 256, v div 256 mod 256, v div 65536 mod 256, v div 16777216 mod 256]"

fun zeros :: "nat \<Rightarrow> nat list" where
  "zeros n = (if n = 0 then [] else 0 # zeros (n - 1))"

declare zeros.simps [simp del]

text \<open>
  The padding: the byte 128, zeros up to 56 modulo 64, and the length in bits as 64 bits,
  the low byte first.
\<close>

definition md5_pad :: "nat list \<Rightarrow> nat list" where
  "md5_pad bs =
     bs @ [128] @ zeros ((119 - length bs mod 64) mod 64)
        @ le_bytes4 (u32 (8 * length bs)) @ le_bytes4 (8 * length bs div 4294967296)"

fun md5_words :: "nat list \<Rightarrow> nat list" where
  "md5_words (a # b # c # d # bs) = (a + 256 * b + 65536 * c + 16777216 * d) # md5_words bs"
| "md5_words bs = []"

type_synonym md5_state = "nat \<times> nat \<times> nat \<times> nat"

definition md5_F :: "nat \<Rightarrow> nat \<Rightarrow> nat \<Rightarrow> nat \<Rightarrow> nat" where
  "md5_F i B C D =
     (if i < 16 then (B AND C) OR (not32 B AND D)
      else if i < 32 then (D AND B) OR (not32 D AND C)
      else if i < 48 then B XOR C XOR D
      else C XOR (B OR not32 D))"

definition md5_g :: "nat \<Rightarrow> nat" where
  "md5_g i =
     (if i < 16 then i
      else if i < 32 then (5 * i + 1) mod 16
      else if i < 48 then (3 * i + 5) mod 16
      else (7 * i) mod 16)"

fun md5_step :: "nat list \<Rightarrow> md5_state \<Rightarrow> nat \<Rightarrow> md5_state" where
  "md5_step M (A, B, C, D) i =
     (D, u32 (B + rotl32 (u32 (md5_F i B C D + A + md5_K ! i + M ! md5_g i)) (md5_s ! i)), B, C)"

fun md5_add :: "md5_state \<Rightarrow> md5_state \<Rightarrow> md5_state" where
  "md5_add (a0, b0, c0, d0) (A, B, C, D) =
     (u32 (a0 + A), u32 (b0 + B), u32 (c0 + C), u32 (d0 + D))"

definition md5_block :: "md5_state \<Rightarrow> nat list \<Rightarrow> md5_state" where
  "md5_block st chunk = md5_add st (foldl (md5_step (md5_words chunk)) st md5_rounds)"

fun md5_blocks :: "md5_state \<Rightarrow> nat list \<Rightarrow> md5_state" where
  "md5_blocks st [] = st"
| "md5_blocks st (b # bs) = md5_blocks (md5_block st (take 64 (b # bs))) (drop 63 bs)"

fun md5_out :: "md5_state \<Rightarrow> nat list" where
  "md5_out (a, b, c, d) = le_bytes4 a @ le_bytes4 b @ le_bytes4 c @ le_bytes4 d"

definition md5 :: "nat list \<Rightarrow> nat list" where
  "md5 bs =
     md5_out (md5_blocks (0x67452301, 0xefcdab89, 0x98badcfe, 0x10325476) (md5_pad bs))"

definition hexdigit :: "nat \<Rightarrow> nat" where
  "hexdigit d = (if d < 10 then 48 + d else 87 + d)"

definition hex :: "nat list \<Rightarrow> jsstring" where
  "hex bs = concat (map (\<lambda>b. [hexdigit (b div 16), hexdigit (b mod 16)]) bs)"

definition md5_hex :: "jsstring \<Rightarrow> jsstring" where
  "md5_hex s = hex (md5 (utf8 s))"

subsection \<open>Deduplication\<close>

text \<open>
  \<^verbatim>\<open>items.filter(j => { ... if (seen.has(key)) return false; seen.add(key); return true; })\<close>
  with the set \<^verbatim>\<open>seen\<close> passed along; \<open>key\<close> is the digest the callback computes.
\<close>

fun filterSeen :: "('a \<Rightarrow> jsstring) \<Rightarrow> jsstring set \<Rightarrow> 'a list \<Rightarrow> 'a list" where
  "filterSeen key seen [] = []"
| "filterSeen key seen (j # js) =
     (if key j \<in> seen then filterSeen key seen js
      else j # filterSeen key (insert (key j) seen) js)"

text \<open>The first revision: title and company in lower case with the white space collapsed, and the URL as it is.\<close>

definition dedupe_key :: "engine \<Rightarrow> job \<Rightarrow> jsstring" where
  "dedupe_key h j =
     (let normalizedTitle = trim (collapseSpace (toLowerCase h (title j)));
          normalizedCompany =
            trim (collapseSpace (toLowerCase h (case company j of None \<Rightarrow> [] | Some c \<Rightarrow> c)))
      in md5_hex (normalizedTitle @ S ''|'' @ normalizedCompany @ S ''|'' @ source_url j))"

definition dedupe :: "engine \<Rightarrow> job list \<Rightarrow> job list" where
  "dedupe h items = filterSeen (dedupe_key h) {} items"

text \<open>The second revision: title and URL as they are.\<close>

definition dedupe_key_v2 :: "job \<Rightarrow> jsstring" where
  "dedupe_key_v2 j = md5_hex (title j @ S ''|'' @ source_url j)"

definition dedupe_v2 :: "job list \<Rightarrow> job list" where
  "dedupe_v2 items = filterSeen dedupe_key_v2 {} items"

subsection \<open>Sorting and truncation\<close>








subsection \<open>The run of the first revision: \<^verbatim>\<open>safeFetch\<close> and \<^verbatim>\<open>main\<close>\<close>

record source_descriptor =
  name :: jsstring
  src_type :: jsstring
  url :: jsstring

definition SOURCES :: "source_descriptor list" where
  "SOURCES =
     [\<lparr> name = S ''Remote OK - All'', src_type = S ''rss'', url = S ''https://remoteok.com/rss'' \<rparr>,
      \<lparr> name = S ''Remote.co - All'', src_type = S ''rss'',
        url = S ''https://remote.co/remote-jobs/feed/'' \<rparr>,
      \<lparr> name = S ''Jobicy - All'', src_type = S ''rss'', url = S ''https://jobicy.com/feed'' \<rparr>,
      \<lparr> name = S ''Himalayas - Jobs'', src_type = S ''rss'',
        url = S ''https://himalayas.app/jobs/rss'' \<rparr>,
      \<lparr> name = S ''We Work Remotely'', src_type = S ''rss'',
        url = S ''https://weworkremotely.com/remote-jobs.rss'' \<rparr>,
      \<lparr> name = S ''AngelList Remote'', src_type = S ''rss'',
        url = S ''https://angel.co/jobs.rss?remote=true'' \<rparr>]"

text \<open>
  \<open>net url\<close> is what the host's \<^verbatim>\<open>fetch(url, {redirect: 'follow', ...})\<close> gives during
  the run, \<open>None\<close> when it rejects. \<^verbatim>\<open>safeFetch\<close> catches the rejection and its own
  \<^verbatim>\<open>throw\<close> for a status that is not ok, and returns \<^verbatim>\<open>null\<close> (\<open>None\<close>) then.
\<close>

definition safeFetch :: "(jsstring \<Rightarrow> response option) \<Rightarrow> jsstring \<Rightarrow> jsstring option" where
  "safeFetch net u =
     (case net u of
        None \<Rightarrow> None
      | Some res \<Rightarrow> if \<not> ok res then None else Some (body res))"

text \<open>
  The loop of \<^verbatim>\<open>main\<close> over the sources, with \<^verbatim>\<open>allJobs\<close> passed along. \<open>clock n i\<close>
  is the reading of the clock while item \<open>i\<close> of the source named \<open>n\<close> is parsed.
\<close>

fun collect ::
  "engine \<Rightarrow> (jsstring \<Rightarrow> response option) \<Rightarrow> (jsstring \<Rightarrow> nat \<Rightarrow> int) \<Rightarrow> job list \<Rightarrow>
   source_descriptor list \<Rightarrow> job list"
where
  "collect h net clock allJobs [] = allJobs"
| "collect h net clock allJobs (src # srcs) =
     (case safeFetch net (url src) of
        None \<Rightarrow> collect h net clock allJobs srcs
      | Some b \<Rightarrow>
          if b = [] then collect h net clock allJobs srcs
          else
            let items = (if src_type src = S ''rss''
                         then rssToItems h (clock (name src)) b (name src) else [])
            in collect h net clock (allJobs @ items) srcs)"

record payload =
  updated_at :: jsstring
  total_jobs :: nat
  sources :: "jsstring list"
  jobs :: "job list"


subsection \<open>A host to run the script on\<close>

text \<open>
  This host writes a time value as its count of milliseconds in decimal and reads such a
  count back; it also reads the one date of the example feed. (A real host writes the ISO
  format. The script never looks inside that string: it only hands it back to
  \<^verbatim>\<open>Date\<close>.)
\<close>

fun digits :: "nat \<Rightarrow> jsstring" where
  "digits n = (if n < 10 then [48 + n] else digits (n div 10) @ [48 + n mod 10])"

declare digits.simps [simp del]

definition number :: "jsstring \<Rightarrow> nat option" where
  "number s =
     (if s \<noteq> [] \<and> list_all (\<lambda>c. 48 \<le> c \<and> c \<le> 57) s
      then Some (foldl (\<lambda>a c. 10 * a + (c - 48)) 0 s) else None)"

definition show_ms :: "int \<Rightarrow> jsstring" where
  "show_ms t = (if t < 0 then 45 # digits (nat (- t)) else digits (nat t))"

definition parse_ms :: "jsstring \<Rightarrow> int option" where
  "parse_ms s =
     (if s = S ''Mon, 01 Jan 2024 00:00:00 GMT'' then Some 1704067200000
      else case s of
             [] \<Rightarrow> None
           | c # cs \<Rightarrow>
               if c = 45 then (case number cs of None \<Rightarrow> None | Some n \<Rightarrow> Some (- int n))
               else (case number s of None \<Rightarrow> None | Some n \<Rightarrow> Some (int n)))"

text \<open>
  The texts of the runs below are made of characters up to U+00FF (ASCII and Latin-1). On
  these \<^verbatim>\<open>toLowerCase()\<close> moves the letters A to Z and the capital letters from U+00C0 to
  U+00DE (the multiplication sign U+00D7 is not one) 32 places up, and leaves the rest.
\<close>

definition lowerLatin1 :: "jsstring \<Rightarrow> jsstring" where
  "lowerLatin1 s =
     map (\<lambda>c. if (65 \<le> c \<and> c \<le> 90) \<or> (192 \<le> c \<and> c \<le> 222 \<and> c \<noteq> 215) then c + 32 else c) s"

definition test_engine :: engine where
  "test_engine = \<lparr> toLowerCase = lowerLatin1, Date_parse = parse_ms, toISOString = show_ms \<rparr>"


subsection \<open>Records to run the pipeline on\<close>

text \<open>
  A record as the first revision's parser builds it, for a title, a company and a link.
\<close>

definition job_of :: "string \<Rightarrow> string option \<Rightarrow> string \<Rightarrow> job" where
  "job_of t c u =
     \<lparr> title = S t, company = map_option S c, source = S ''Feed'', source_url = S u,
       posted_at = S ''1704067200000'', tags = [S ''full-time''], location = S ''Remote'',
       excerpt = Some [], category = Some (S ''other''), remote_type = None, salary = None \<rparr>"


subsection \<open>Notions the properties are stated with\<close>





text \<open>The text an item gives for its date, as \<^verbatim>\<open>rssToItems\<close> reads it.\<close>

definition dateText :: "jsstring \<Rightarrow> jsstring" where
  "dateText block =
     orElse (strip (Some (pick block (S ''pubDate'')))) (strip (Some (pick block (S ''date''))))"

text \<open>The description of an item, as the first revision's \<^verbatim>\<open>rssToItems\<close> reads it.\<close>

definition descriptionOf :: "jsstring \<Rightarrow> jsstring" where
  "descriptionOf block =
     strip (Some (orElse (orElse (pick block (S ''description''))
                                 (pick block (S ''content:encoded'')))
                         (pick block (S ''summary''))))"

text \<open>The link of an item, as the first revision's \<^verbatim>\<open>rssToItems\<close> reads it.\<close>

definition linkOf :: "jsstring \<Rightarrow> jsstring" where
  "linkOf block =
     removeQuery (orElse (orElse (strip (Some (pick block (S ''link''))))
                                 (strip (Some (pick block (S ''guid''))))) [])"

subsection \<open>Inputs to run the pipeline on\<close>

text \<open>
  The item of the spec's example scenario and a feed that holds it; two sources, and a
  network on which the first answers with that feed and every other URL with a status 500.
\<close>

definition example_item :: jsstring where
  "example_item =
     S ''<title>Customer Support Rep</title><link>https://example.com/job/1?ref=abc</link>'' @
     S ''<pubDate>Mon, 01 Jan 2024 00:00:00 GMT</pubDate>'' @
     S ''<description>Entry level support role.</description>''"

definition example_feed :: jsstring where
  "example_feed = S ''<rss><item>'' @ example_item @ S ''</item></rss>''"




text \<open>The record that the first revision makes of the example item.\<close>

definition example_job :: job where
  "example_job =
     \<lparr> title = S ''Customer Support Rep'', company = None, source = S ''A'',
       source_url = S ''https://example.com/job/1'', posted_at = S ''1704067200000'',
       tags = [S ''entry-level'', S ''full-time'', S ''customer-service'', S ''no-experience''],
       location = S ''Remote'', excerpt = Some (S ''Entry level support role.''),
       category = Some (S ''customer-service''), remote_type = None, salary = None \<rparr>"

text \<open>An item whose description has 201 characters.\<close>

definition long_item :: jsstring where
  "long_item =
     S ''<title>Entry support</title><link>http://a.example/1</link><description>'' @
     replicate 201 120 @ S ''</description>''"



section \<open>Properties of the transport\<close>


lemma sleeps_append: "sleeps (xs @ ys) = sleeps xs + sleeps ys"
  by (induction xs rule: sleeps.induct) auto


text \<open>Past depth 0 the transport never sleeps: the 403 retry happens at depth 0 only.\<close>

lemma fetchText_sleeps:
  "0 < depth \<Longrightarrow> sleeps (snd (fetchText h u depth log)) = sleeps log"
proof (induction h u depth log rule: fetchText.induct)
  case (1 h u depth log)
  show ?case
  proof (cases "fetch h log u")
    case None
    then show ?thesis by (subst fetchText.simps) (simp add: sleeps_append)
  next
    case (Some res)
    note res = Some
    show ?thesis
    proof (cases "redirect_status (status res)")
      case True
      note red = True
      show ?thesis
      proof (cases "location_header res")
        case None
        with res red show ?thesis by (subst fetchText.simps) (simp add: sleeps_append)
      next
        case (Some loc)
        note loc = Some
        show ?thesis
        proof (cases "loc = []")
          case True
          with res red loc show ?thesis by (subst fetchText.simps) (simp add: sleeps_append)
        next
          case False
          note present = False
          show ?thesis
          proof (cases "resolve h loc u")
            case None
            with res red loc present show ?thesis
              by (subst fetchText.simps) (simp add: sleeps_append)
          next
            case (Some nxt)
            show ?thesis
            proof (cases "depth > 5")
              case True
              with res red loc present Some show ?thesis
                by (subst fetchText.simps) (simp add: sleeps_append)
            next
              case False
              from "1.IH"(1) [OF refl res red loc present Some False]
              have "sleeps (snd (fetchText h nxt (depth + 1) (log @ [Request u])))
                      = sleeps (log @ [Request u])" by simp
              with res red loc present Some False show ?thesis
                by (subst fetchText.simps) (simp add: sleeps_append)
            qed
          qed
        qed
      qed
    next
      case False
      with res "1.prems" show ?thesis
        by (subst fetchText.simps) (auto simp add: sleeps_append Let_def)
    qed
  qed
qed





text \<open>
  Claim C9, as the code has it. When the first request of a fetch (depth 0) is answered
  with 403, the transport sleeps 500 ms and requests the same URL once more; no later call
  sleeps again; and when that second answer is a 403, or any other status that is neither
  2xx nor one of the redirects 301, 302, 307, 308, the fetch ends with the error carrying
  that status, having issued exactly these two requests.
\<close>

theorem fetchText_retry_once:
  "fetch h log u = Some r1 \<and> status r1 = 403 \<longrightarrow>
     fetchText h u 0 log = fetchText h u 1 (log @ [Request u, Sleep 500]) \<and>
     sleeps (snd (fetchText h u 0 log)) = sleeps log + 1 \<and>
     (\<forall>r2. fetch h (log @ [Request u, Sleep 500]) u = Some r2 \<and>
           \<not> ok r2 \<and> \<not> redirect_status (status r2) \<longrightarrow>
           fetchText h u 0 log =
             (Inl (FetchFailed u (status r2)), log @ [Request u, Sleep 500, Request u]))"
proof (intro impI)
  assume a: "fetch h log u = Some r1 \<and> status r1 = 403"
  have step: "fetchText h u 0 log = fetchText h u 1 (log @ [Request u, Sleep 500])"
    using a by (subst fetchText.simps) (simp add: redirect_status_def)
  have "sleeps (snd (fetchText h u 1 (log @ [Request u, Sleep 500])))
          = sleeps (log @ [Request u, Sleep 500])"
    by (rule fetchText_sleeps) simp
  then have sl: "sleeps (snd (fetchText h u 0 log)) = sleeps log + 1"
    by (simp add: step sleeps_append)
  have fail: "fetchText h u 0 log =
      (Inl (FetchFailed u (status r2)), log @ [Request u, Sleep 500, Request u])"
    if "fetch h (log @ [Request u, Sleep 500]) u = Some r2 \<and>
        \<not> ok r2 \<and> \<not> redirect_status (status r2)" for r2
    unfolding step using that by (subst fetchText.simps) simp
  from step sl fail
  show "fetchText h u 0 log = fetchText h u 1 (log @ [Request u, Sleep 500]) \<and>
     sleeps (snd (fetchText h u 0 log)) = sleeps log + 1 \<and>
     (\<forall>r2. fetch h (log @ [Request u, Sleep 500]) u = Some r2 \<and>
           \<not> ok r2 \<and> \<not> redirect_status (status r2) \<longrightarrow>
           fetchText h u 0 log =
             (Inl (FetchFailed u (status r2)), log @ [Request u, Sleep 500, Request u]))"
    by blast
qed

theorem fetchText_retry_once_witness:
  "fetchText (forbidding 2 200) (S ''http://a.example/feed'') 0 [] =
     (Inl (FetchFailed (S ''http://a.example/feed'') 403),
      [Request (S ''http://a.example/feed''), Sleep 500, Request (S ''http://a.example/feed'')]) \<and>
   sleeps (snd (fetchText (forbidding 2 200) (S ''http://a.example/feed'') 0 [])) = 1"
proof -
  let ?u = "S ''http://a.example/feed''"
  let ?r = "\<lparr> status = 403, location_header = None, body = [] \<rparr>"
  have 1: "fetch (forbidding 2 200) [] ?u = Some ?r \<and> status ?r = 403"
    by (simp add: forbidding_def)
  have 2: "fetch (forbidding 2 200) ([] @ [Request ?u, Sleep 500]) ?u = Some ?r \<and>
           \<not> ok ?r \<and> \<not> redirect_status (status ?r)"
    by (simp add: forbidding_def ok_def redirect_status_def)
  from fetchText_retry_once [of "forbidding 2 200" "[]" ?u ?r] 1
  have 3: "sleeps (snd (fetchText (forbidding 2 200) ?u 0 [])) = sleeps [] + 1"
    and 4: "\<forall>r2. fetch (forbidding 2 200) ([] @ [Request ?u, Sleep 500]) ?u = Some r2 \<and>
           \<not> ok r2 \<and> \<not> redirect_status (status r2) \<longrightarrow>
           fetchText (forbidding 2 200) ?u 0 [] =
             (Inl (FetchFailed ?u (status r2)), [] @ [Request ?u, Sleep 500, Request ?u])"
    by blast+
  from 4 2 have "fetchText (forbidding 2 200) ?u 0 [] =
      (Inl (FetchFailed ?u (status ?r)), [] @ [Request ?u, Sleep 500, Request ?u])"
    by blast
  with 3 show ?thesis by simp
qed

text \<open>
  Claim C9 as the spec states it fails for a retry that is answered with a redirect: a 302
  is not a 2xx status, and the transport follows it and returns the body it leads to.
\<close>

theorem fetchText_retry_follows_redirect:
  "fetchText (forbidding 1 302) (S ''http://a.example/feed'') 0 [] =
     (Inr (S ''ok''),
      [Request (S ''http://a.example/feed''), Sleep 500,
       Request (S ''http://a.example/feed''), Request (S ''http://a.example/next'')])"
  by (simp add: fetchText.simps forbidding_def S_def redirect_status_def ok_def)

section \<open>Properties of the deduplication\<close>

lemma filterSeen_subseq: "subseq (filterSeen key seen js) js"
  by (induction js arbitrary: seen) auto


lemma filterSeen_keys:
  "set (map key (filterSeen key seen js)) = set (map key js) - seen"
  by (induction js arbitrary: seen) auto

lemma filterSeen_distinct: "distinct (map key (filterSeen key seen js))"
  by (induction js arbitrary: seen) (auto simp: filterSeen_keys simp flip: set_map)

lemma filterSeen_snoc:
  "filterSeen key seen (js @ [j]) =
     filterSeen key seen js @ (if key j \<in> seen \<union> key ` set js then [] else [j])"
  by (induction js arbitrary: seen) auto

lemma filter_key_once:
  "distinct (map key xs) \<Longrightarrow> k \<in> key ` set xs \<Longrightarrow> length (filter (\<lambda>j. key j = k) xs) = 1"
proof (induction xs)
  case Nil
  then show ?case by simp
next
  case (Cons x xs)
  show ?case
  proof (cases "key x = k")
    case True
    with Cons.prems have "k \<notin> key ` set xs" by simp
    then have "filter (\<lambda>j. key j = k) xs = []"
      by (simp add: filter_empty_conv) blast
    with True show ?thesis by simp
  next
    case False
    with Cons show ?thesis by auto
  qed
qed

lemma filterSeen_once:
  assumes "a \<in> set js" and "key a \<notin> seen"
  shows "length (filter (\<lambda>j. key j = key a) (filterSeen key seen js)) = 1"
proof -
  from assms have "key a \<in> set (map key js) - seen" by simp
  then have "key a \<in> set (map key (filterSeen key seen js))"
    by (simp only: filterSeen_keys)
  then have "key a \<in> key ` set (filterSeen key seen js)" by simp
  with filterSeen_distinct [of key seen js] show ?thesis
    by (rule filter_key_once)
qed

lemmas md5_eval = md5_hex_def md5_def md5_pad_def md5_block_def hex_def hexdigit_def
  md5_K_def md5_s_def md5_F_def md5_g_def u32_def not32_def rotl32_def md5_rounds_def
  le_bytes4_def zeros.simps

text \<open>The digest is MD5: the test suite of RFC 1321, and a string outside ASCII.\<close>

lemma md5_hex_rfc1321:
  "md5_hex [] = S ''d41d8cd98f00b204e9800998ecf8427e''"
  "md5_hex (S ''abc'') = S ''900150983cd24fb0d6963f7d28e17f72''"
  "md5_hex (S ''message digest'') = S ''f96b697d7cb7938d525a2f31aaf161d0''"
  "md5_hex (S ''12345678901234567890123456789012345678901234567890123456789012345678901234567890'')
     = S ''57edf4a22be3c955ac49da2e2107b67a''"
  "md5_hex ([233, 8211] @ S ''x'') = S ''13062c42a0a8b30175b01b7e07674727''"
  by (simp_all add: md5_eval S_def)

text \<open>
  Claim C2, as the code has it. In both revisions \<^verbatim>\<open>dedupe\<close> keeps the records in their
  order, the first record of each fingerprint and no other, so that exactly one record of
  every fingerprint of the input survives. In the first revision two records have the same
  fingerprint when their titles and their companies agree up to case (as the engine's
  \<^verbatim>\<open>toLowerCase()\<close> maps it, whatever the alphabet) and white space and their links are
  equal; in the second when their titles and links are equal.
\<close>

theorem dedupe_first_seen:
  "subseq (dedupe h items) items \<and>
   distinct (map (dedupe_key h) (dedupe h items)) \<and>
   dedupe h (items @ [j]) =
     dedupe h items @ (if dedupe_key h j \<in> dedupe_key h ` set items then [] else [j]) \<and>
   (\<forall>a\<in>set items. length (filter (\<lambda>b. dedupe_key h b = dedupe_key h a) (dedupe h items)) = 1) \<and>
   (\<forall>a b. trim (collapseSpace (toLowerCase h (title a))) = trim (collapseSpace (toLowerCase h (title b))) \<and>
          trim (collapseSpace (toLowerCase h (case company a of None \<Rightarrow> [] | Some c \<Rightarrow> c))) =
          trim (collapseSpace (toLowerCase h (case company b of None \<Rightarrow> [] | Some c \<Rightarrow> c))) \<and>
          source_url a = source_url b \<longrightarrow> dedupe_key h a = dedupe_key h b) \<and>
   subseq (dedupe_v2 items) items \<and>
   distinct (map dedupe_key_v2 (dedupe_v2 items)) \<and>
   dedupe_v2 (items @ [j]) =
     dedupe_v2 items @ (if dedupe_key_v2 j \<in> dedupe_key_v2 ` set items then [] else [j]) \<and>
   (\<forall>a\<in>set items. length (filter (\<lambda>b. dedupe_key_v2 b = dedupe_key_v2 a) (dedupe_v2 items)) = 1) \<and>
   (\<forall>a b. title a = title b \<and> source_url a = source_url b \<longrightarrow> dedupe_key_v2 a = dedupe_key_v2 b)"
proof -
  have 1: "subseq (dedupe h items) items" "subseq (dedupe_v2 items) items"
    by (simp_all add: dedupe_def dedupe_v2_def filterSeen_subseq)
  have 2: "distinct (map (dedupe_key h) (dedupe h items))"
    "distinct (map dedupe_key_v2 (dedupe_v2 items))"
    by (simp_all only: dedupe_def dedupe_v2_def filterSeen_distinct)
  have 3: "dedupe h (items @ [j]) =
      dedupe h items @ (if dedupe_key h j \<in> dedupe_key h ` set items then [] else [j])"
    "dedupe_v2 (items @ [j]) =
      dedupe_v2 items @ (if dedupe_key_v2 j \<in> dedupe_key_v2 ` set items then [] else [j])"
    by (simp_all add: dedupe_def dedupe_v2_def filterSeen_snoc)
  have 4: "\<forall>a\<in>set items. length (filter (\<lambda>b. dedupe_key h b = dedupe_key h a) (dedupe h items)) = 1"
    "\<forall>a\<in>set items. length (filter (\<lambda>b. dedupe_key_v2 b = dedupe_key_v2 a) (dedupe_v2 items)) = 1"
    by (simp_all add: dedupe_def dedupe_v2_def filterSeen_once)
  have 5: "\<forall>a b. trim (collapseSpace (toLowerCase h (title a))) = trim (collapseSpace (toLowerCase h (title b))) \<and>
          trim (collapseSpace (toLowerCase h (case company a of None \<Rightarrow> [] | Some c \<Rightarrow> c))) =
          trim (collapseSpace (toLowerCase h (case company b of None \<Rightarrow> [] | Some c \<Rightarrow> c))) \<and>
          source_url a = source_url b \<longrightarrow> dedupe_key h a = dedupe_key h b"
    "\<forall>a b. title a = title b \<and> source_url a = source_url b \<longrightarrow> dedupe_key_v2 a = dedupe_key_v2 b"
    by (simp_all add: dedupe_key_def dedupe_key_v2_def Let_def)
  from 1 2 3 4 5 show ?thesis by blast
qed

theorem dedupe_first_seen_witness:
  "dedupe_key test_engine (job_of ''Virtual Assistant'' None ''https://a.example/job/1'')
     = dedupe_key test_engine (job_of ''virtual  ASSISTANT '' None ''https://a.example/job/1'') \<and>
   length (filter (\<lambda>b. dedupe_key test_engine b = dedupe_key test_engine (job_of ''virtual  ASSISTANT '' None ''https://a.example/job/1''))
      (dedupe test_engine [job_of ''Virtual Assistant'' None ''https://a.example/job/1'',
               job_of ''virtual  ASSISTANT '' None ''https://a.example/job/1''])) = 1 \<and>
   dedupe_key test_engine (job_of (CHR 0xC9 # ''cole Assistant'') None ''https://a.example/job/2'')
     = dedupe_key test_engine (job_of (CHR 0xE9 # ''cole assistant'') None ''https://a.example/job/2'') \<and>
   dedupe test_engine [job_of (CHR 0xC9 # ''cole Assistant'') None ''https://a.example/job/2'',
                       job_of (CHR 0xE9 # ''cole assistant'') None ''https://a.example/job/2'']
     = [job_of (CHR 0xC9 # ''cole Assistant'') None ''https://a.example/job/2''] \<and>
   dedupe_key_v2 (job_of ''Virtual Assistant'' None ''https://a.example/job/1'')
     = dedupe_key_v2 (job_of ''Virtual Assistant'' (Some ''Acme'') ''https://a.example/job/1'') \<and>
   length (filter (\<lambda>b. dedupe_key_v2 b = dedupe_key_v2 (job_of ''Virtual Assistant'' (Some ''Acme'') ''https://a.example/job/1''))
      (dedupe_v2 [job_of ''Virtual Assistant'' None ''https://a.example/job/1'',
                  job_of ''Virtual Assistant'' (Some ''Acme'') ''https://a.example/job/1''])) = 1"
proof -
  let ?a = "job_of ''Virtual Assistant'' None ''https://a.example/job/1''"
  let ?b = "job_of ''virtual  ASSISTANT '' None ''https://a.example/job/1''"
  let ?c = "job_of ''Virtual Assistant'' (Some ''Acme'') ''https://a.example/job/1''"
  let ?e = "job_of (CHR 0xC9 # ''cole Assistant'') None ''https://a.example/job/2''"
  let ?f = "job_of (CHR 0xE9 # ''cole assistant'') None ''https://a.example/job/2''"
  note t = dedupe_first_seen [of test_engine "[?a, ?b]" ?a]
  note t2 = dedupe_first_seen [of test_engine "[?a, ?c]" ?a]
  note t3 = dedupe_first_seen [of test_engine "[?e]" ?f]
  have n: "trim (collapseSpace (toLowerCase test_engine (title ?a))) = trim (collapseSpace (toLowerCase test_engine (title ?b))) \<and>
          trim (collapseSpace (toLowerCase test_engine (case company ?a of None \<Rightarrow> [] | Some c \<Rightarrow> c))) =
          trim (collapseSpace (toLowerCase test_engine (case company ?b of None \<Rightarrow> [] | Some c \<Rightarrow> c))) \<and>
          source_url ?a = source_url ?b"
    by (simp add: job_of_def S_def test_engine_def lowerLatin1_def trim_def isSpace_def)
  from t n have 1: "dedupe_key test_engine ?a = dedupe_key test_engine ?b" by blast
  have "?b \<in> set [?a, ?b]" by simp
  with t have 2: "length (filter (\<lambda>x. dedupe_key test_engine x = dedupe_key test_engine ?b) (dedupe test_engine [?a, ?b])) = 1"
    by blast
  have "title ?a = title ?c \<and> source_url ?a = source_url ?c"
    by (simp add: job_of_def)
  with t2 have 3: "dedupe_key_v2 ?a = dedupe_key_v2 ?c" by blast
  have "?c \<in> set [?a, ?c]" by simp
  with t2 have 4: "length (filter (\<lambda>x. dedupe_key_v2 x = dedupe_key_v2 ?c) (dedupe_v2 [?a, ?c])) = 1"
    by blast
  have "trim (collapseSpace (toLowerCase test_engine (title ?e))) = trim (collapseSpace (toLowerCase test_engine (title ?f))) \<and>
          trim (collapseSpace (toLowerCase test_engine (case company ?e of None \<Rightarrow> [] | Some c \<Rightarrow> c))) =
          trim (collapseSpace (toLowerCase test_engine (case company ?f of None \<Rightarrow> [] | Some c \<Rightarrow> c))) \<and>
          source_url ?e = source_url ?f"
    by (simp add: job_of_def S_def test_engine_def lowerLatin1_def trim_def isSpace_def)
  with t3 have 5: "dedupe_key test_engine ?e = dedupe_key test_engine ?f" by blast
  from t3 have "dedupe test_engine ([?e] @ [?f]) =
      dedupe test_engine [?e] @
        (if dedupe_key test_engine ?f \<in> dedupe_key test_engine ` set [?e] then [] else [?f])"
    by blast
  with 5 have 6: "dedupe test_engine [?e, ?f] = [?e]"
    by (simp add: dedupe_def)
  from 1 2 3 4 5 6 show ?thesis by blast
qed

text \<open>
  Claim C2 as the spec states it fails in both revisions. In the first, two records with
  the same title whose links differ in case only have different fingerprints (the link is
  not normalised), and both survive; in the second, so do two records with the same link
  whose titles differ in case only (nothing is normalised).
\<close>

lemma dedupe_keys_example:
  "dedupe_key test_engine (job_of ''Virtual Assistant'' None ''https://a.example/Job/1'')
     = S ''27ed78a753cfde600dfe5e31c6a2fde3''"
  "dedupe_key test_engine (job_of ''Virtual Assistant'' None ''https://a.example/job/1'')
     = S ''6d1afe6e834b0da4a387bba2b012cc45''"
  "dedupe_key_v2 (job_of ''Virtual Assistant'' None ''https://a.example/job/1'')
     = S ''1ffe2a196e8a73818e578e8eee55e3b3''"
  "dedupe_key_v2 (job_of ''virtual assistant'' None ''https://a.example/job/1'')
     = S ''67999fe8514866eec16b33d3ddae420d''"
  by (simp_all add: dedupe_key_def dedupe_key_v2_def job_of_def S_def trim_def test_engine_def lowerLatin1_def
      isSpace_def md5_eval)

theorem dedupe_keeps_case_variants:
  "dedupe test_engine [job_of ''Virtual Assistant'' None ''https://a.example/Job/1'',
           job_of ''Virtual Assistant'' None ''https://a.example/job/1'']
     = [job_of ''Virtual Assistant'' None ''https://a.example/Job/1'',
        job_of ''Virtual Assistant'' None ''https://a.example/job/1''] \<and>
   dedupe_v2 [job_of ''Virtual Assistant'' None ''https://a.example/job/1'',
              job_of ''virtual assistant'' None ''https://a.example/job/1'']
     = [job_of ''Virtual Assistant'' None ''https://a.example/job/1'',
        job_of ''virtual assistant'' None ''https://a.example/job/1'']"
  by (simp add: dedupe_def dedupe_v2_def dedupe_keys_example) (simp add: S_def)

section \<open>Properties of the sort\<close>







section \<open>Properties of the run\<close>

text \<open>What one source adds to \<^verbatim>\<open>allJobs\<close>: nothing when its fetch gave no body.\<close>

lemma collect_Cons:
  "collect h net clock allJobs (src # srcs) =
     collect h net clock
       (allJobs @ (case safeFetch net (url src) of
                     None \<Rightarrow> []
                   | Some b \<Rightarrow> if b = [] then []
                       else if src_type src = S ''rss''
                       then rssToItems h (clock (name src)) b (name src) else []))
       srcs"
  by (cases "safeFetch net (url src)") (simp_all add: Let_def)

lemma collect_append:
  "collect h net clock (pre @ allJobs) srcs = pre @ collect h net clock allJobs srcs"
proof (induction srcs arbitrary: allJobs)
  case Nil
  show ?case by simp
next
  case (Cons src srcs)
  show ?case unfolding collect_Cons using Cons [of "allJobs @ _"] by simp
qed





section \<open>Properties of the records\<close>




text \<open>What \<^verbatim>\<open>rssToItems\<close> of the first revision puts into a record that it emits.\<close>

lemma rssItem_Some:
  assumes "rssItem h now sourceName block = Some j"
  shows "title j = strip (Some (pick block (S ''title'')))"
    and "title j \<noteq> []"
    and "source_url j = linkOf block"
    and "prefix (S ''http'') (source_url j)"
    and "posted_at j = parseDate h now (dateText block)"
    and "company j = extractCompany (title j) (descriptionOf block)"
    and "excerpt j = Some (take 200 (descriptionOf block))"
    and "\<exists>c. category j = Some (categorizeJob h (title j) (descriptionOf block) c) \<and>
             tags j = generateTags h (title j) (descriptionOf block)
                        (categorizeJob h (title j) (descriptionOf block) c)"
proof -
  let ?t = "strip (Some (pick block (S ''title'')))"
  let ?c = "map (\<lambda>m. strip (Some m)) (allTags (S ''category'') block)"
  from assms have ok: "prefix (S ''http'') (linkOf block)" "?t \<noteq> []"
    by (auto simp: rssItem_def linkOf_def Let_def split: if_splits)
  from assms have j: "j = \<lparr> title = ?t, company = extractCompany ?t (descriptionOf block),
      source = sourceName, source_url = linkOf block,
      posted_at = parseDate h now (dateText block),
      tags = generateTags h ?t (descriptionOf block) (categorizeJob h ?t (descriptionOf block) ?c),
      location = S ''Remote'', excerpt = Some (take 200 (descriptionOf block)),
      category = Some (categorizeJob h ?t (descriptionOf block) ?c),
      remote_type = None, salary = None \<rparr>"
    by (simp add: rssItem_def linkOf_def descriptionOf_def dateText_def Let_def split: if_splits)
  show "title j = ?t" "source_url j = linkOf block"
    "posted_at j = parseDate h now (dateText block)"
    "excerpt j = Some (take 200 (descriptionOf block))"
    by (simp_all add: j)
  show "title j \<noteq> []" "prefix (S ''http'') (source_url j)"
    using ok by (simp_all add: j)
  show "company j = extractCompany (title j) (descriptionOf block)"
    by (simp add: j)
  show "\<exists>c. category j = Some (categorizeJob h (title j) (descriptionOf block) c) \<and>
             tags j = generateTags h (title j) (descriptionOf block)
                        (categorizeJob h (title j) (descriptionOf block) c)"
    by (rule exI [of _ ?c]) (simp add: j)
qed











text \<open>
  Claim C10. \<^verbatim>\<open>extractCompany\<close> never looks at its second argument, so the company of a
  record depends on its title only: two records that \<^verbatim>\<open>rssToItems\<close> emits with the same
  title have the same company.
\<close>

theorem extractCompany_ignores_description:
  "extractCompany t d1 = extractCompany t d2 \<and>
   (rssItem h now1 s1 b1 = Some j1 \<and> rssItem h now2 s2 b2 = Some j2 \<and> title j1 = title j2 \<longrightarrow>
      company j1 = company j2)"
proof (intro conjI impI)
  show eq: "extractCompany t d1 = extractCompany t d2" for t d1 d2
    by (simp add: extractCompany_def)
  assume a: "rssItem h now1 s1 b1 = Some j1 \<and> rssItem h now2 s2 b2 = Some j2 \<and> title j1 = title j2"
  then have i1: "rssItem h now1 s1 b1 = Some j1" and i2: "rssItem h now2 s2 b2 = Some j2"
    by simp_all
  have "company j1 = extractCompany (title j1) (descriptionOf b1)"
    and "company j2 = extractCompany (title j2) (descriptionOf b2)"
    by (rule rssItem_Some(6) [OF i1], rule rssItem_Some(6) [OF i2])
  with a eq [of "title j1" "descriptionOf b1" "descriptionOf b2"] show "company j1 = company j2"
    by simp
qed

section \<open>Running the model on concrete inputs\<close>

text \<open>
  Equations that let the simplifier run the text functions on a given string with the
  short circuit of the source's \<^verbatim>\<open>&&\<close> and \<^verbatim>\<open>||\<close>: the first failing character ends
  a comparison, and the first hit ends a search.
\<close>

lemma run_prefix: "prefix (x # xs) (y # ys) = (if x = y then prefix xs ys else False)"
  by simp

lemma run_iprefix: "iprefix (p # ps) (c # cs) = (if canon p = canon c then iprefix ps cs else False)"
  by simp

lemma run_str_includes:
  "str_includes (c # cs) k = (if prefix k (c # cs) then True else str_includes cs k)"
  by simp

lemma run_list_ex: "list_ex P (x # xs) = (if P x then True else list_ex P xs)"
  by simp

lemma run_matches_Lit:
  "matches_here ci (Lit a # as) prev (c # cs) =
     (if (if ci then canon a = canon c else a = c) then matches_here ci as (Some c) cs else False)"
  by simp

lemma run_matches_Dot:
  "matches_here ci (Dot # as) prev (c # cs) =
     (if isLineTerminator c then False else matches_here ci as (Some c) cs)"
  by simp

lemma run_matches_DotOpt:
  "matches_here ci (DotOpt # as) prev (c # cs) =
     (if isLineTerminator c then matches_here ci as prev (c # cs)
      else if matches_here ci as (Some c) cs then True
      else matches_here ci as prev (c # cs))"
  by simp

lemma run_matches_WordB:
  "matches_here ci (WordB # as) prev s =
     (if wordAt prev \<noteq> wordAt (case s of [] \<Rightarrow> None | c # cs \<Rightarrow> Some c)
      then matches_here ci as prev s else False)"
  by simp

lemma run_test_from:
  "test_from ci alts prev (c # cs) =
     (if list_ex (\<lambda>a. matches_here ci a prev (c # cs)) alts then True
      else test_from ci alts (Some c) cs)"
  by simp

lemma run_literals:
  "S ''<![CDATA['' = [60, 33, 91, 67, 68, 65, 84, 65, 91]"
  "S '']]>'' = [93, 93, 62]"
  "S ''<item>'' = [60, 105, 116, 101, 109, 62]"
  by (simp_all add: S_def)

lemmas run_rules = run_prefix run_iprefix run_str_includes run_list_ex run_matches_Lit
  run_matches_Dot run_matches_DotOpt run_matches_WordB run_test_from run_literals

lemmas run_not = Cons_prefix_Cons iprefix.simps(3) str_includes.simps(2) list_ex_Cons_iff
  matches_here.simps(3) matches_here.simps(5) matches_here.simps(7) matches_here.simps(8)
  test_from.simps(2)

lemma test_engine_lower: "toLowerCase test_engine = lowerLatin1"
  by (simp add: test_engine_def)

lemmas text_eval = S_def trim_def isSpace_def isLineTerminator_def isLetter_def isWordChar_def
  canon_def test_engine_lower lowerLatin1_def orElse_def startsWith_def wordAt_def

lemmas parse_eval = pick_def tagAt_def itemAt_def allTags.simps itemBlocks.simps

lemmas infer_eval = isBeginnerFriendly_def BEGINNER_KEYWORDS_def SENIOR_KEYWORDS_def
  extractCompany_def atPattern_def barPattern_def hyphenPattern_def nameTail_def isDash_def
  inNameClass_def categorizeJob_def generateTags_def test_i_def test_b_def

lemmas dates_eval = parseDate_def test_engine_def show_ms_def parse_ms_def number_def digits.simps

section \<open>The host of the examples\<close>







lemma run_replicate: "replicate (numeral k) x = x # replicate (pred_numeral k) x"
  by (simp add: numeral_eq_Suc)

lemma example_picks:
  "pick example_item (S ''title'') = S ''Customer Support Rep''"
  "pick example_item (S ''link'') = S ''https://example.com/job/1?ref=abc''"
  "pick example_item (S ''guid'') = []"
  "pick example_item (S ''pubDate'') = S ''Mon, 01 Jan 2024 00:00:00 GMT''"
  "pick example_item (S ''date'') = []"
  "pick example_item (S ''description'') = S ''Entry level support role.''"
  "pick example_item (S ''content:encoded'') = []"
  "pick example_item (S ''summary'') = []"
  "allTags (S ''category'') example_item = []"
  by (simp_all add: example_item_def parse_eval text_eval run_rules del: run_not
      split del: if_split cong: let_weak_cong)

lemma example_strips:
  "strip (Some (S ''Customer Support Rep'')) = S ''Customer Support Rep''"
  "strip (Some (S ''https://example.com/job/1?ref=abc'')) = S ''https://example.com/job/1?ref=abc''"
  "strip (Some []) = []"
  "strip (Some (S ''Mon, 01 Jan 2024 00:00:00 GMT'')) = S ''Mon, 01 Jan 2024 00:00:00 GMT''"
  "strip (Some (S ''Entry level support role.'')) = S ''Entry level support role.''"
  "removeQuery (S ''https://example.com/job/1?ref=abc'') = S ''https://example.com/job/1''"
  by (simp_all add: strip_def text_eval run_rules del: run_not
      split del: if_split cong: let_weak_cong)

lemma example_inference:
  "isBeginnerFriendly test_engine (S ''Customer Support Rep'') (S ''Entry level support role.'') []"
  "extractCompany (S ''Customer Support Rep'') (S ''Entry level support role.'') = None"
  "categorizeJob test_engine (S ''Customer Support Rep'') (S ''Entry level support role.'') []
     = S ''customer-service''"
  by (simp_all add: infer_eval text_eval Let_def run_rules del: run_not
      split del: if_split cong: let_weak_cong)

lemma example_tags:
  "generateTags test_engine (S ''Customer Support Rep'') (S ''Entry level support role.'') (S ''customer-service'')
     = [S ''entry-level'', S ''full-time'', S ''customer-service'', S ''no-experience'']"
  by (simp add: infer_eval text_eval Let_def run_rules del: run_not
      split del: if_split cong: let_weak_cong)


text \<open>The first revision on the example item, for every clock and source name.\<close>

lemma example_rssItem:
  "rssItem test_engine now sourceName example_item =
     Some \<lparr> title = S ''Customer Support Rep'', company = None, source = sourceName,
            source_url = S ''https://example.com/job/1'',
            posted_at = parseDate test_engine now (S ''Mon, 01 Jan 2024 00:00:00 GMT''),
            tags = [S ''entry-level'', S ''full-time'', S ''customer-service'', S ''no-experience''],
            location = S ''Remote'', excerpt = Some (S ''Entry level support role.''),
            category = Some (S ''customer-service''), remote_type = None, salary = None \<rparr>"
proof -
  have l: "prefix (S ''http'') (S ''https://example.com/job/1'')"
    "S ''Customer Support Rep'' \<noteq> []" "S ''https://example.com/job/1'' \<noteq> []"
    "S ''https://example.com/job/1?ref=abc'' \<noteq> []" "S ''Mon, 01 Jan 2024 00:00:00 GMT'' \<noteq> []"
    "S ''Entry level support role.'' \<noteq> []"
    "take 200 (S ''Entry level support role.'') = S ''Entry level support role.''"
    by (simp_all add: S_def)
  show ?thesis
    by (simp add: rssItem_def example_picks example_strips example_inference example_tags
        orElse_def l Let_def split del: if_split cong: let_weak_cong)
qed

lemma example_itemBlocks: "itemBlocks True example_feed = [example_item]"
proof -
  have "itemBlocks True example_feed = [drop 11 (take 192 example_feed)]"
    by (simp add: example_feed_def example_item_def parse_eval text_eval run_rules del: run_not
        split del: if_split cong: let_weak_cong)
  moreover have "drop 11 (take 192 example_feed) = example_item"
    by (simp add: example_feed_def example_item_def S_def)
  ultimately show ?thesis by simp
qed

lemma example_rssToItems:
  "rssToItems test_engine clock example_feed (S ''A'') = [example_job]"
proof -
  have "example_feed \<noteq> []" by (simp add: example_feed_def S_def)
  moreover have "parseDate test_engine (clock 0) (S ''Mon, 01 Jan 2024 00:00:00 GMT'')
                   = S ''1704067200000''"
    by (simp add: dates_eval S_def)
  ultimately show ?thesis
    by (simp add: rssToItems_def example_itemBlocks example_rssItem example_job_def)
qed









theorem extractCompany_ignores_description_witness:
  "extractCompany (S ''Customer Support Rep'') (S ''at Acme'') = extractCompany (S ''Customer Support Rep'') [] \<and>
   (\<exists>j1 j2. rssItem test_engine 1 (S ''A'') example_item = Some j1 \<and>
            rssItem test_engine 2 (S ''B'') example_item = Some j2 \<and>
            source j1 \<noteq> source j2 \<and> company j1 = company j2)"
proof -
  let ?j = "\<lambda>now s. \<lparr> title = S ''Customer Support Rep'', company = None, source = s,
            source_url = S ''https://example.com/job/1'',
            posted_at = parseDate test_engine now (S ''Mon, 01 Jan 2024 00:00:00 GMT''),
            tags = [S ''entry-level'', S ''full-time'', S ''customer-service'', S ''no-experience''],
            location = S ''Remote'', excerpt = Some (S ''Entry level support role.''),
            category = Some (S ''customer-service''), remote_type = None, salary = None \<rparr>"
  note t = extractCompany_ignores_description [of "S ''Customer Support Rep''" "S ''at Acme''" "[]"
      test_engine 1 "S ''A''" example_item "?j 1 (S ''A'')" 2 "S ''B''" example_item "?j 2 (S ''B'')"]
  have i: "rssItem test_engine 1 (S ''A'') example_item = Some (?j 1 (S ''A''))"
    "rssItem test_engine 2 (S ''B'') example_item = Some (?j 2 (S ''B''))"
    by (rule example_rssItem)+
  then have "rssItem test_engine 1 (S ''A'') example_item = Some (?j 1 (S ''A'')) \<and>
    rssItem test_engine 2 (S ''B'') example_item = Some (?j 2 (S ''B'')) \<and>
    title (?j 1 (S ''A'')) = title (?j 2 (S ''B''))"
    by simp
  with t have c: "company (?j 1 (S ''A'')) = company (?j 2 (S ''B''))" by blast
  have s: "source (?j 1 (S ''A'')) \<noteq> source (?j 2 (S ''B''))" by (simp add: S_def)
  from t have e: "extractCompany (S ''Customer Support Rep'') (S ''at Acme'')
      = extractCompany (S ''Customer Support Rep'') []" by blast
  from i c s e show ?thesis by blast
qed


text \<open>
  Claim C5 as the spec states it fails in the first revision: the record made of the
  spec's own example item has no \<^verbatim>\<open>remote\<close> tag, since neither its title nor its
  description says remote, anywhere, global or distributed.
\<close>

theorem example_record_lacks_remote:
  "rssToItems test_engine (\<lambda>i. 0) example_feed (S ''A'') = [example_job] \<and>
   S ''remote'' \<notin> set (tags example_job)"
  by (simp add: example_rssToItems) (simp add: example_job_def S_def)

end
